theory Spec2Isabelle
  imports Complex_Main
begin

section \<open>Embedding of \<open>src/simulation/roic.py\<close>\<close>

text \<open>
  Python floats are modelled as mathematical reals: rounding and overflow are not
  modelled, and every equality below is an equality of reals. The statements name the
  expressions the code evaluates, in the order it evaluates them. What the code does
  beyond arithmetic is explicit: a Python exception is a value \<open>Inl e\<close>, a numpy
  element that is not a finite number (\<open>nan\<close>, \<open>inf\<close>) is \<open>None\<close>, and the global
  numpy random generator is a function of the number of draws made so far.
\<close>

datatype error = ZeroDivisionError | ValueError | TypeError

text \<open>Python's \<open>a / b\<close> on floats raises on a zero divisor.\<close>

definition py_div :: "real \<Rightarrow> real \<Rightarrow> error + real" where
  "py_div a b = (if b = 0 then Inl ZeroDivisionError else Inr (a / b))"

subsection \<open>\<open>calculate_effective_tax_rate\<close>\<close>

definition calculate_effective_tax_rate ::
  "real \<Rightarrow> real \<Rightarrow> real \<Rightarrow> real \<Rightarrow> real \<Rightarrow> real \<Rightarrow> error + real" where
  "calculate_effective_tax_rate revenue cogs non_marketing_opex total_marketing_spend
      waste_percentage tax_rate =
    (let effective_marketing = total_marketing_spend * (1 - waste_percentage);
         wasted_marketing = total_marketing_spend * waste_percentage;
         true_operating_income = revenue - cogs - non_marketing_opex - effective_marketing
     in if true_operating_income \<le> 0 then Inr 0
        else
          let actual_operating_income = true_operating_income - wasted_marketing;
              actual_nopat = actual_operating_income * (1 - tax_rate)
          in case py_div actual_nopat true_operating_income of
               Inl e \<Rightarrow> Inl e
             | Inr q \<Rightarrow> Inr (1 - q))"

subsection \<open>\<open>calculate_roic_improvement\<close>\<close>

text \<open>
  \<open>np.linspace(0, 1, num)\<close>: a negative \<open>num\<close> raises \<open>ValueError\<close>, \<open>num = 0\<close> gives the
  empty array, \<open>num = 1\<close> gives \<open>[0.]\<close>, and otherwise the points are \<open>i / (num - 1)\<close>
  for \<open>i = 0, ..., num - 1\<close>.
\<close>

definition linspace01 :: "int \<Rightarrow> error + real list" where
  "linspace01 num =
    (if num < 0 then Inl ValueError
     else if num = 1 then Inr [0]
     else Inr (map (\<lambda>i. real i / real (nat num - 1)) [0..<nat num]))"

text \<open>
  The body of the loop over \<open>removal_percentages\<close>, appending one value to
  \<open>roic_values\<close> per removal fraction.
\<close>

fun roic_loop ::
  "real \<Rightarrow> real \<Rightarrow> real \<Rightarrow> real \<Rightarrow> real \<Rightarrow> real \<Rightarrow> real \<Rightarrow> real list \<Rightarrow> real list
     \<Rightarrow> error + real list" where
  "roic_loop revenue cogs non_marketing_opex total_marketing_spend ineffective_spend
      tax_rate invested_capital [] roic_values = Inr roic_values"
| "roic_loop revenue cogs non_marketing_opex total_marketing_spend ineffective_spend
      tax_rate invested_capital (removal_pct # rest) roic_values =
    (let spend_removed = ineffective_spend * removal_pct;
         current_marketing_spend = total_marketing_spend - spend_removed;
         operating_income = revenue - cogs - non_marketing_opex - current_marketing_spend
     in if operating_income \<le> 0 \<or> invested_capital \<le> 0
        then roic_loop revenue cogs non_marketing_opex total_marketing_spend
               ineffective_spend tax_rate invested_capital rest (roic_values @ [0])
        else
          let nopat = operating_income * (1 - tax_rate)
          in case py_div nopat invested_capital of
               Inl e \<Rightarrow> Inl e
             | Inr roic \<Rightarrow>
                 roic_loop revenue cogs non_marketing_opex total_marketing_spend
                   ineffective_spend tax_rate invested_capital rest (roic_values @ [roic]))"

definition calculate_roic_improvement ::
  "real \<Rightarrow> real \<Rightarrow> real \<Rightarrow> real \<Rightarrow> real \<Rightarrow> real \<Rightarrow> real \<Rightarrow> int
     \<Rightarrow> error + (real list \<times> real list)" where
  "calculate_roic_improvement revenue cogs non_marketing_opex total_marketing_spend
      effectiveness_percentage tax_rate invested_capital removal_points =
    (case linspace01 removal_points of
       Inl e \<Rightarrow> Inl e
     | Inr removal_percentages \<Rightarrow>
         let effective_spend = total_marketing_spend * effectiveness_percentage;
             ineffective_spend = total_marketing_spend * (1 - effectiveness_percentage)
         in case roic_loop revenue cogs non_marketing_opex total_marketing_spend
                   ineffective_spend tax_rate invested_capital removal_percentages [] of
              Inl e \<Rightarrow> Inl e
            | Inr roic_values \<Rightarrow> Inr (removal_percentages, roic_values))"

text \<open>
  The point value of the curve as the specification words it (section 4.2), and the
  return on invested capital computed directly from a given marketing spend.
\<close>

definition spec_roic_point ::
  "real \<Rightarrow> real \<Rightarrow> real \<Rightarrow> real \<Rightarrow> real \<Rightarrow> real \<Rightarrow> real \<Rightarrow> real \<Rightarrow> real" where
  "spec_roic_point revenue cogs non_marketing_opex total_marketing_spend effectiveness
      tax_rate invested_capital removal_fraction =
    (let operating_income = revenue - cogs - non_marketing_opex
           - (total_marketing_spend
                - total_marketing_spend * (1 - effectiveness) * removal_fraction)
     in if operating_income \<le> 0 \<or> invested_capital \<le> 0 then 0
        else (operating_income * (1 - tax_rate)) / invested_capital)"

definition direct_roic :: "real \<Rightarrow> real \<Rightarrow> real \<Rightarrow> real \<Rightarrow> real \<Rightarrow> real \<Rightarrow> real" where
  "direct_roic revenue cogs non_marketing_opex marketing tax_rate invested_capital =
    (let operating_income = revenue - cogs - non_marketing_opex - marketing
     in if operating_income \<le> 0 \<or> invested_capital \<le> 0 then 0
        else (operating_income * (1 - tax_rate)) / invested_capital)"

subsection \<open>\<open>simulate_multi_year_cumulative_roic\<close>\<close>

text \<open>
  \<open>np.random.normal(loc, scale)\<close> reads and advances the global generator. The
  generator is a function from the number of draws made so far, the mean and the
  standard deviation to the value drawn; the count is threaded through the loops.
\<close>

type_synonym normal_source = "nat \<Rightarrow> real \<Rightarrow> real \<Rightarrow> real"

definition revenue_std :: real where
  "revenue_std = 0.05"

definition roic_impact :: real where
  "roic_impact = 1.0"

text \<open>
  \<open>x ** 0.7\<close> on a Python float: a negative base gives a complex number, which
  \<open>np.random.normal\<close> then refuses as its mean with a \<open>TypeError\<close>.
\<close>

definition py_pow :: "real \<Rightarrow> real \<Rightarrow> error + real" where
  "py_pow x a = (if x < 0 then Inl TypeError else Inr (x powr a))"

text \<open>The variables of one trial, with the generator's draw count.\<close>

record yearly_state =
  current_revenue :: real
  current_marketing :: real
  current_capital :: real
  prior_year_roic :: real
  yearly_nopat :: "real list"
  yearly_capital :: "real list"
  draws :: nat

text \<open>Lines 169 to 184: the marketing spend of the year, after waste removal.\<close>

definition marketing_spend_update ::
  "real \<Rightarrow> real \<Rightarrow> real \<Rightarrow> int \<Rightarrow> real \<Rightarrow> real \<Rightarrow> real" where
  "marketing_spend_update marketing_growth base_effectiveness removal_pct year
      cur_marketing prior_roic =
    (if year = 0 then
       let waste_amount = cur_marketing * (1 - base_effectiveness);
           removed_waste = waste_amount * removal_pct
       in cur_marketing - removed_waste
     else
       let roic_adjustment = (prior_roic - 0.05) * roic_impact;
           adjusted_growth = marketing_growth + max (- 0.1) (min 0.2 roic_adjustment);
           base_growth = cur_marketing * adjusted_growth;
           waste_in_growth = base_growth * (1 - base_effectiveness);
           removed_growth_waste = waste_in_growth * removal_pct;
           actual_growth = base_growth - removed_growth_waste
       in cur_marketing + actual_growth)"

text \<open>The body of the loop over \<open>range(n_years)\<close>.\<close>

definition simulate_year ::
  "normal_source \<Rightarrow> real \<Rightarrow> real \<Rightarrow> real \<Rightarrow> real \<Rightarrow> real \<Rightarrow> real \<Rightarrow> int \<Rightarrow> real \<Rightarrow> real
     \<Rightarrow> int \<Rightarrow> yearly_state \<Rightarrow> error + yearly_state" where
  "simulate_year normal cogs non_marketing_opex total_marketing_spend tax_rate
      marketing_growth capital_growth n_years base_effectiveness removal_pct year s =
    (let marketing = marketing_spend_update marketing_growth base_effectiveness
                       removal_pct year (current_marketing s) (prior_year_roic s);
         operating_income = current_revenue s - cogs - non_marketing_opex - marketing;
         nopat = max 0 (operating_income * (1 - tax_rate));
         s1 = s\<lparr>current_marketing := marketing,
                yearly_nopat := yearly_nopat s @ [nopat],
                yearly_capital := yearly_capital s @ [current_capital s]\<rparr>
     in case (if current_capital s > 0 then py_div nopat (current_capital s) else Inr 0) of
          Inl e \<Rightarrow> Inl e
        | Inr current_roic \<Rightarrow>
            if year < n_years - 1 then
              (case py_div marketing total_marketing_spend of
                 Inl e \<Rightarrow> Inl e
               | Inr ratio \<Rightarrow>
                   (case py_pow ratio 0.7 of
                      Inl e \<Rightarrow> Inl e
                    | Inr p \<Rightarrow>
                        let base_revenue_growth = marketing_growth * p;
                            roic_boost = max 0 ((current_roic - 0.05) * 0.7);
                            total_revenue_growth = base_revenue_growth + roic_boost;
                            revenue_growth = normal (draws s1) total_revenue_growth revenue_std
                        in Inr (s1\<lparr>current_revenue :=
                                      current_revenue s1 * (1 + max 0 revenue_growth),
                                    current_capital := current_capital s1 * (1 + capital_growth),
                                    prior_year_roic := current_roic,
                                    draws := Suc (draws s1)\<rparr>)))
            else Inr s1)"

fun year_loop ::
  "normal_source \<Rightarrow> real \<Rightarrow> real \<Rightarrow> real \<Rightarrow> real \<Rightarrow> real \<Rightarrow> real \<Rightarrow> int \<Rightarrow> real \<Rightarrow> real
     \<Rightarrow> int list \<Rightarrow> yearly_state \<Rightarrow> error + yearly_state" where
  "year_loop normal cogs non_marketing_opex total_marketing_spend tax_rate
      marketing_growth capital_growth n_years base_effectiveness removal_pct [] s = Inr s"
| "year_loop normal cogs non_marketing_opex total_marketing_spend tax_rate
      marketing_growth capital_growth n_years base_effectiveness removal_pct (year # rest) s =
    (case simulate_year normal cogs non_marketing_opex total_marketing_spend tax_rate
            marketing_growth capital_growth n_years base_effectiveness removal_pct year s of
       Inl e \<Rightarrow> Inl e
     | Inr s' \<Rightarrow>
         year_loop normal cogs non_marketing_opex total_marketing_spend tax_rate
           marketing_growth capital_growth n_years base_effectiveness removal_pct rest s')"

text \<open>
  \<open>np.cumsum\<close>, and the elementwise division of two arrays: numpy does not raise on
  a zero divisor, the element is \<open>nan\<close> or \<open>inf\<close>.
\<close>

fun cumsum_from :: "real \<Rightarrow> real list \<Rightarrow> real list" where
  "cumsum_from acc [] = []"
| "cumsum_from acc (x # xs) = (acc + x) # cumsum_from (acc + x) xs"

definition np_cumsum :: "real list \<Rightarrow> real list" where
  "np_cumsum xs = cumsum_from 0 xs"

definition np_div :: "real \<Rightarrow> real \<Rightarrow> real option" where
  "np_div a b = (if b = 0 then None else Some (a / b))"

definition np_divide :: "real list \<Rightarrow> real list \<Rightarrow> real option list" where
  "np_divide xs ys = map (\<lambda>(a, b). np_div a b) (zip xs ys)"

text \<open>One pass of the loop over \<open>range(n_simulations)\<close>: one trial.\<close>

definition run_trial ::
  "normal_source \<Rightarrow> real \<Rightarrow> real \<Rightarrow> real \<Rightarrow> real \<Rightarrow> real \<Rightarrow> real \<Rightarrow> real \<Rightarrow> real \<Rightarrow> int
     \<Rightarrow> real \<Rightarrow> real \<Rightarrow> nat \<Rightarrow> error + (real option list \<times> nat)" where
  "run_trial normal revenue cogs non_marketing_opex total_marketing_spend tax_rate
      invested_capital marketing_growth capital_growth n_years base_effectiveness
      removal_pct k =
    (let s0 = \<lparr>current_revenue = revenue,
               current_marketing = total_marketing_spend,
               current_capital = invested_capital,
               prior_year_roic = 0,
               yearly_nopat = [],
               yearly_capital = [],
               draws = k\<rparr>
     in case year_loop normal cogs non_marketing_opex total_marketing_spend tax_rate
               marketing_growth capital_growth n_years base_effectiveness removal_pct
               [0..n_years - 1] s0 of
          Inl e \<Rightarrow> Inl e
        | Inr s \<Rightarrow>
            let cumulative_nopats = np_cumsum (yearly_nopat s);
                cumulative_capitals = np_cumsum (yearly_capital s);
                yearly_cumulative_roics = np_divide cumulative_nopats cumulative_capitals
            in Inr (yearly_cumulative_roics, draws s))"

fun trial_loop ::
  "normal_source \<Rightarrow> real \<Rightarrow> real \<Rightarrow> real \<Rightarrow> real \<Rightarrow> real \<Rightarrow> real \<Rightarrow> real \<Rightarrow> real \<Rightarrow> int
     \<Rightarrow> real \<Rightarrow> real \<Rightarrow> nat \<Rightarrow> real option list list \<Rightarrow> nat
     \<Rightarrow> error + (real option list list \<times> nat)" where
  "trial_loop normal revenue cogs non_marketing_opex total_marketing_spend tax_rate
      invested_capital marketing_growth capital_growth n_years base_effectiveness
      removal_pct 0 all_cumulative_roics k = Inr (all_cumulative_roics, k)"
| "trial_loop normal revenue cogs non_marketing_opex total_marketing_spend tax_rate
      invested_capital marketing_growth capital_growth n_years base_effectiveness
      removal_pct (Suc remaining) all_cumulative_roics k =
    (case run_trial normal revenue cogs non_marketing_opex total_marketing_spend tax_rate
            invested_capital marketing_growth capital_growth n_years base_effectiveness
            removal_pct k of
       Inl e \<Rightarrow> Inl e
     | Inr (yearly_cumulative_roics, k') \<Rightarrow>
         trial_loop normal revenue cogs non_marketing_opex total_marketing_spend tax_rate
           invested_capital marketing_growth capital_growth n_years base_effectiveness
           removal_pct remaining (all_cumulative_roics @ [yearly_cumulative_roics]) k')"

text \<open>
  \<open>np.mean(a, axis=0)\<close> and \<open>np.std(a, axis=0)\<close> on the array of the trials' rows. A
  column holding a non-finite element has a non-finite mean and deviation. With no
  trial at all the array is one-dimensional and empty, and both are the scalar \<open>nan\<close>.
\<close>

datatype ndarray = NdScalar "real option" | NdVector "real option list"

definition mean1 :: "real option list \<Rightarrow> real option" where
  "mean1 col =
    (if None \<in> set col then None
     else Some (sum_list (map the col) / real (length col)))"

definition std1 :: "real option list \<Rightarrow> real option" where
  "std1 col =
    (if None \<in> set col then None
     else let m = sum_list (map the col) / real (length col)
          in Some (sqrt (sum_list (map (\<lambda>x. (the x - m)\<^sup>2) col) / real (length col))))"

definition columns :: "real option list list \<Rightarrow> real option list list" where
  "columns rows = map (\<lambda>j. map (\<lambda>row. row ! j) rows) [0..<length (hd rows)]"

definition np_mean_axis0 :: "real option list list \<Rightarrow> ndarray" where
  "np_mean_axis0 rows =
    (if rows = [] then NdScalar None else NdVector (map mean1 (columns rows)))"

definition np_std_axis0 :: "real option list list \<Rightarrow> ndarray" where
  "np_std_axis0 rows =
    (if rows = [] then NdScalar None else NdVector (map std1 (columns rows)))"

text \<open>
  The loop over \<open>removal_scenarios\<close>, filling the dictionary \<open>scenarios\<close>, whose
  values start as Python's \<open>None\<close>.
\<close>

type_synonym scenario_result = "int list \<times> ndarray \<times> ndarray"

fun scenario_loop ::
  "normal_source \<Rightarrow> real \<Rightarrow> real \<Rightarrow> real \<Rightarrow> real \<Rightarrow> real \<Rightarrow> real \<Rightarrow> real \<Rightarrow> real \<Rightarrow> int
     \<Rightarrow> int \<Rightarrow> real \<Rightarrow> int list \<Rightarrow> real list \<Rightarrow> (real \<rightharpoonup> scenario_result option) \<Rightarrow> nat
     \<Rightarrow> error + ((real \<rightharpoonup> scenario_result option) \<times> nat)" where
  "scenario_loop normal revenue cogs non_marketing_opex total_marketing_spend tax_rate
      invested_capital marketing_growth capital_growth n_years n_simulations
      base_effectiveness years [] scenarios k = Inr (scenarios, k)"
| "scenario_loop normal revenue cogs non_marketing_opex total_marketing_spend tax_rate
      invested_capital marketing_growth capital_growth n_years n_simulations
      base_effectiveness years (removal_pct # rest) scenarios k =
    (case trial_loop normal revenue cogs non_marketing_opex total_marketing_spend tax_rate
            invested_capital marketing_growth capital_growth n_years base_effectiveness
            removal_pct (nat n_simulations) [] k of
       Inl e \<Rightarrow> Inl e
     | Inr (all_cumulative_roics, k') \<Rightarrow>
         let mean_roics = np_mean_axis0 all_cumulative_roics;
             std_roics = np_std_axis0 all_cumulative_roics
         in scenario_loop normal revenue cogs non_marketing_opex total_marketing_spend
              tax_rate invested_capital marketing_growth capital_growth n_years
              n_simulations base_effectiveness years rest
              (scenarios(removal_pct \<mapsto> Some (years, mean_roics, std_roics))) k')"

definition simulate_multi_year_cumulative_roic ::
  "normal_source \<Rightarrow> nat \<Rightarrow> real \<Rightarrow> real \<Rightarrow> real \<Rightarrow> real \<Rightarrow> real \<Rightarrow> real \<Rightarrow> real \<Rightarrow> real
     \<Rightarrow> int \<Rightarrow> int \<Rightarrow> real \<Rightarrow> real list
     \<Rightarrow> error + ((real \<rightharpoonup> scenario_result option) \<times> nat)" where
  "simulate_multi_year_cumulative_roic normal k revenue cogs non_marketing_opex
      total_marketing_spend tax_rate invested_capital marketing_growth capital_growth
      n_years n_simulations base_effectiveness removal_scenarios =
    (let years = [1..n_years];
         scenarios = map_of (map (\<lambda>removal. (removal, None)) removal_scenarios)
     in scenario_loop normal revenue cogs non_marketing_opex total_marketing_spend
          tax_rate invested_capital marketing_growth capital_growth n_years n_simulations
          base_effectiveness years removal_scenarios scenarios k)"

subsection \<open>Predicates used in the statements\<close>

text \<open>
  The capital of a trial is in order when the current capital and every recorded
  capital are positive and every recorded profit is non-negative. A cumulative value
  is in order when it is a finite, non-negative number.
\<close>

definition capital_ok :: "yearly_state \<Rightarrow> bool" where
  "capital_ok s \<longleftrightarrow>
     0 < current_capital s
     \<and> (\<forall>c \<in> set (yearly_capital s). 0 < c)
     \<and> (\<forall>x \<in> set (yearly_nopat s). 0 \<le> x)"

definition roic_ok :: "real option \<Rightarrow> bool" where
  "roic_ok x \<longleftrightarrow> (case x of None \<Rightarrow> False | Some v \<Rightarrow> 0 \<le> v)"

text \<open>
  An entry of the returned dictionary is in order when it is still \<open>None\<close>, or its mean
  sequence is an array of \<open>n\<close> finite, non-negative numbers.
\<close>

definition scenario_ok :: "int \<Rightarrow> scenario_result option \<Rightarrow> bool" where
  "scenario_ok n v \<longleftrightarrow>
     (case v of
        None \<Rightarrow> True
      | Some (years, m, sd) \<Rightarrow>
          (case m of
             NdScalar x \<Rightarrow> False
           | NdVector means \<Rightarrow> length means = nat n \<and> list_all roic_ok means))"

section \<open>Single-year analysis\<close>

lemma roic_loop_eq:
  "roic_loop revenue cogs nmo tms (tms * (1 - e)) t ic ps acc
     = Inr (acc @ map (spec_roic_point revenue cogs nmo tms e t ic) ps)"
  by (induction ps arbitrary: acc) (simp_all add: py_div_def spec_roic_point_def Let_def)

lemma calculate_roic_improvement_eq:
  "linspace01 n = Inr pcts \<Longrightarrow>
   calculate_roic_improvement revenue cogs nmo tms e t ic n
     = Inr (pcts, map (spec_roic_point revenue cogs nmo tms e t ic) pcts)"
  by (simp add: calculate_roic_improvement_def roic_loop_eq)

lemma spec_roic_point_nonneg:
  "t \<le> 1 \<Longrightarrow> 0 \<le> spec_roic_point revenue cogs nmo tms e t ic p"
  by (simp add: spec_roic_point_def Let_def)

lemma spec_roic_point_mono:
  assumes "0 \<le> tms" "e \<le> 1" "t \<le> 1" "p \<le> q"
  shows "spec_roic_point revenue cogs nmo tms e t ic p
           \<le> spec_roic_point revenue cogs nmo tms e t ic q"
proof -
  have w: "0 \<le> tms * (1 - e)" using assms by simp
  have "tms * (1 - e) * p \<le> tms * (1 - e) * q"
    using w assms(4) by (rule mult_left_mono[rotated])
  then have oi: "revenue - cogs - nmo - (tms - tms * (1 - e) * p)
      \<le> revenue - cogs - nmo - (tms - tms * (1 - e) * q)" by simp
  show ?thesis
  proof (cases "ic \<le> 0")
    case True then show ?thesis by (simp add: spec_roic_point_def Let_def)
  next
    case False
    then have ic: "0 < ic" by simp
    have t: "0 \<le> 1 - t" using assms by simp
    show ?thesis
    proof (cases "revenue - cogs - nmo - (tms - tms * (1 - e) * p) \<le> 0")
      case True
      then show ?thesis using spec_roic_point_nonneg[OF assms(3), of revenue cogs nmo tms e ic q]
        by (simp add: spec_roic_point_def Let_def)
    next
      case False
      with oi have "\<not> revenue - cogs - nmo - (tms - tms * (1 - e) * q) \<le> 0" by linarith
      with False ic show ?thesis
        using mult_right_mono[OF oi t] 
        by (simp add: spec_roic_point_def Let_def divide_right_mono)
    qed
  qed
qed


lemma linspace01_sorted:
  assumes "linspace01 n = Inr pcts"
  shows "sorted pcts"
proof (cases "n = 1")
  case True
  with assms show ?thesis by (auto simp: linspace01_def)
next
  case False
  with assms have p: "pcts = map (\<lambda>i. real i / real (nat n - 1)) [0..<nat n]"
    by (simp add: linspace01_def split: if_splits)
  have "sorted_wrt (\<lambda>i j. real i / real (nat n - 1) \<le> real j / real (nat n - 1)) [0..<nat n]"
    by (rule sorted_wrt_mono_rel[of _ "(\<le>)"]) (simp_all add: divide_right_mono)
  then show ?thesis by (simp add: p sorted_map)
qed

lemma linspace01_ends:
  assumes "2 \<le> n"
  shows "\<exists>mid. linspace01 n = Inr (0 # mid @ [1])"
proof -
  define m where "m = nat n - 2"
  have m: "nat n = Suc (Suc m)" using assms by (simp add: m_def)
  have "[0..<Suc (Suc m)] = 0 # [1..<Suc m] @ [Suc m]"
    by (simp add: upt_conv_Cons)
  then show ?thesis using assms m
    by (simp add: linspace01_def)
qed


lemma linspace01_length: "linspace01 n = Inr pcts \<Longrightarrow> length pcts = nat n"
  by (auto simp: linspace01_def split: if_splits)

text \<open>
  Claim C2. For every removal fraction in the sweep, \<open>calculate_roic_improvement\<close>
  returns the point value the specification gives: 0 when the operating income or the
  invested capital is not positive, and the after-tax operating income over the
  invested capital otherwise. The call raises nothing, and with a tax rate of at most
  1 (the input schema has it in [0, 1]) no value is negative.
\<close>

theorem roic_point_value:
  assumes "linspace01 removal_points = Inr removal_percentages"
  shows "calculate_roic_improvement revenue cogs non_marketing_opex total_marketing_spend
           effectiveness tax_rate invested_capital removal_points
         = Inr (removal_percentages,
                map (spec_roic_point revenue cogs non_marketing_opex total_marketing_spend
                       effectiveness tax_rate invested_capital) removal_percentages)
       \<and> (tax_rate \<le> 1 \<longrightarrow>
            (\<forall>p \<in> set removal_percentages.
               0 \<le> spec_roic_point revenue cogs non_marketing_opex total_marketing_spend
                      effectiveness tax_rate invested_capital p))"
  using assms by (simp add: calculate_roic_improvement_eq spec_roic_point_nonneg)

theorem roic_point_value_witness:
  "linspace01 3 = Inr [0, 1 / 2, 1]
   \<and> calculate_roic_improvement 100 40 20 30 (1 / 2) (1 / 4) 70 3
       = Inr ([0, 1 / 2, 1], [3 / 28, 3 / 16, 15 / 56])
   \<and> (1 / 4 :: real) \<le> 1
   \<and> 0 \<le> spec_roic_point 100 40 20 30 (1 / 2) (1 / 4) 70 0
   \<and> 0 \<le> spec_roic_point 100 40 20 30 (1 / 2) (1 / 4) 70 (1 / 2)
   \<and> 0 \<le> spec_roic_point 100 40 20 30 (1 / 2) (1 / 4) 70 1"
proof -
  have l: "linspace01 3 = Inr [0, 1 / 2, 1]"
    by (simp add: linspace01_def upt_conv_Cons)
  show ?thesis
    using roic_point_value [OF l, of 100 40 20 30 "1 / 2" "1 / 4" 70] l
    by (simp add: spec_roic_point_def)
qed

text \<open>
  Claim C4, as stated, fails: with \<open>removal_points = 1\<close> the sweep is \<open>[0]\<close>, so the
  endpoint 1 is not among the returned removal fractions, and the value at full
  removal is not among the returned values.
\<close>

theorem sweep_endpoints_counterexample:
  "calculate_roic_improvement 100 40 20 30 (1 / 2) (1 / 4) 70 1 = Inr ([0], [3 / 28])
   \<and> (1 :: real) \<notin> set [0]
   \<and> direct_roic 100 40 20 (30 * (1 / 2)) (1 / 4) 70 \<notin> set [3 / 28]"
  by (simp add: calculate_roic_improvement_def linspace01_def py_div_def direct_roic_def)

text \<open>
  Claim C4, amended. With at least one sweep point, the first removal fraction is 0 and
  the first value is the return computed directly from the unmodified
  \<open>total_marketing_spend\<close>. With at least two sweep points, the last removal fraction is
  1 and the last value is the return computed with the marketing spend
  \<open>total_marketing_spend - total_marketing_spend * (1 - effectiveness)\<close>, the expression
  the code evaluates at full removal.
\<close>

theorem sweep_endpoints:
  assumes "1 \<le> removal_points"
  shows "\<exists>removal_percentages roic_values.
           calculate_roic_improvement revenue cogs non_marketing_opex total_marketing_spend
             effectiveness tax_rate invested_capital removal_points
           = Inr (removal_percentages, roic_values)
         \<and> length removal_percentages = nat removal_points
         \<and> length roic_values = nat removal_points
         \<and> hd removal_percentages = 0
         \<and> hd roic_values
             = direct_roic revenue cogs non_marketing_opex total_marketing_spend
                 tax_rate invested_capital
         \<and> (2 \<le> removal_points
              \<longrightarrow> last removal_percentages = 1
                  \<and> last roic_values
                      = direct_roic revenue cogs non_marketing_opex
                          (total_marketing_spend
                             - total_marketing_spend * (1 - effectiveness))
                          tax_rate invested_capital)"
proof -
  have e0: "spec_roic_point revenue cogs non_marketing_opex total_marketing_spend
              effectiveness tax_rate invested_capital 0
            = direct_roic revenue cogs non_marketing_opex total_marketing_spend
                tax_rate invested_capital"
    by (simp add: spec_roic_point_def direct_roic_def)
  have e1: "spec_roic_point revenue cogs non_marketing_opex total_marketing_spend
              effectiveness tax_rate invested_capital 1
            = direct_roic revenue cogs non_marketing_opex
                (total_marketing_spend - total_marketing_spend * (1 - effectiveness))
                tax_rate invested_capital"
    by (simp add: spec_roic_point_def direct_roic_def)
  show ?thesis
  proof (cases "removal_points = 1")
    case True
    have l: "linspace01 1 = Inr [0]"
      by (simp add: linspace01_def)
    show ?thesis
      unfolding True using e0 by (simp add: calculate_roic_improvement_eq [OF l])
  next
    case False
    with assms have two: "2 \<le> removal_points" by simp
    then obtain mid where l: "linspace01 removal_points = Inr (0 # mid @ [1])"
      using linspace01_ends by blast
    show ?thesis
      using linspace01_length [OF l] e0 e1
      by (simp add: calculate_roic_improvement_eq [OF l])
  qed
qed

theorem sweep_endpoints_witness:
  "(1 :: int) \<le> 1
   \<and> calculate_roic_improvement 100 40 20 30 (1 / 2) (1 / 4) 70 1 = Inr ([0], [3 / 28])
   \<and> (1 :: int) \<le> 3 \<and> (2 :: int) \<le> 3
   \<and> calculate_roic_improvement 100 40 20 30 (1 / 2) (1 / 4) 70 3
       = Inr ([0, 1 / 2, 1], [3 / 28, 3 / 16, 15 / 56])
   \<and> direct_roic 100 40 20 30 (1 / 4) 70 = 3 / 28
   \<and> direct_roic 100 40 20 (30 - 30 * (1 - 1 / 2)) (1 / 4) 70 = 15 / 56"
proof -
  have a: "calculate_roic_improvement 100 40 20 30 (1 / 2) (1 / 4) 70 1 = Inr ([0], [3 / 28])"
    by (simp add: calculate_roic_improvement_def linspace01_def py_div_def)
  have b: "calculate_roic_improvement 100 40 20 30 (1 / 2) (1 / 4) 70 3
       = Inr ([0, 1 / 2, 1], [3 / 28, 3 / 16, 15 / 56])"
    by (simp add: calculate_roic_improvement_def linspace01_def upt_conv_Cons py_div_def)
  show ?thesis
    using a b
      sweep_endpoints [of 1 100 40 20 30 "1 / 2" "1 / 4" 70]
      sweep_endpoints [of 3 100 40 20 30 "1 / 2" "1 / 4" 70]
    by (simp add: direct_roic_def)
qed

text \<open>
  Claim C5. For a non-negative marketing spend, a tax rate of at most 1 and an
  effectiveness of at most 1, the returned values are non-decreasing along the
  (non-decreasing) removal fractions. The proviso of the claim, a positive operating
  income and invested capital over the sweep, is a special case: where it fails the
  value is 0, below every later value.
\<close>

theorem roic_values_monotone:
  assumes "0 \<le> total_marketing_spend" and "tax_rate \<le> 1" and "effectiveness \<le> 1"
    and "calculate_roic_improvement revenue cogs non_marketing_opex total_marketing_spend
           effectiveness tax_rate invested_capital removal_points
         = Inr (removal_percentages, roic_values)"
  shows "sorted removal_percentages \<and> sorted roic_values"
proof -
  from assms(4) obtain pcts where l: "linspace01 removal_points = Inr pcts"
    by (cases "linspace01 removal_points") (simp_all add: calculate_roic_improvement_def)
  from assms(4) have p: "removal_percentages = pcts"
    and v: "roic_values = map (spec_roic_point revenue cogs non_marketing_opex
              total_marketing_spend effectiveness tax_rate invested_capital) pcts"
    by (auto simp: calculate_roic_improvement_eq [OF l])
  have s: "sorted pcts" by (rule linspace01_sorted [OF l])
  have "sorted_wrt (\<lambda>p q. spec_roic_point revenue cogs non_marketing_opex
            total_marketing_spend effectiveness tax_rate invested_capital p
          \<le> spec_roic_point revenue cogs non_marketing_opex
            total_marketing_spend effectiveness tax_rate invested_capital q) pcts"
    using s by (rule sorted_wrt_mono_rel [rotated])
      (rule spec_roic_point_mono [OF assms(1) assms(3) assms(2)])
  then show ?thesis using s by (simp add: p v sorted_map)
qed

theorem roic_values_monotone_witness:
  "(0 :: real) \<le> 30 \<and> (1 / 4 :: real) \<le> 1 \<and> (1 / 2 :: real) \<le> 1
   \<and> calculate_roic_improvement 100 40 20 30 (1 / 2) (1 / 4) 70 3
       = Inr ([0, 1 / 2, 1], [3 / 28, 3 / 16, 15 / 56])
   \<and> sorted [0, 1 / 2, 1 :: real] \<and> sorted [3 / 28, 3 / 16, 15 / 56 :: real]"
proof -
  have c: "calculate_roic_improvement 100 40 20 30 (1 / 2) (1 / 4) 70 3
       = Inr ([0, 1 / 2, 1], [3 / 28, 3 / 16, 15 / 56])"
    by (simp add: calculate_roic_improvement_def linspace01_def upt_conv_Cons py_div_def)
  have "sorted [0, 1 / 2, 1 :: real] \<and> sorted [3 / 28, 3 / 16, 15 / 56 :: real]"
    by (rule roic_values_monotone [OF _ _ _ c]) simp_all
  with c show ?thesis by simp
qed

text \<open>
  Claim C6. \<open>calculate_effective_tax_rate\<close> returns 0 whenever the waste-free operating
  income is at most 0, and when it is positive the function returns the ratio of the
  regular branch instead.
\<close>

theorem effective_tax_rate_degenerate:
  "(revenue - cogs - non_marketing_opex - total_marketing_spend * (1 - waste_percentage) \<le> 0
      \<longrightarrow> calculate_effective_tax_rate revenue cogs non_marketing_opex
            total_marketing_spend waste_percentage tax_rate = Inr 0)
   \<and> (0 < revenue - cogs - non_marketing_opex - total_marketing_spend * (1 - waste_percentage)
      \<longrightarrow> calculate_effective_tax_rate revenue cogs non_marketing_opex
            total_marketing_spend waste_percentage tax_rate
          = Inr (1 - ((revenue - cogs - non_marketing_opex
                         - total_marketing_spend * (1 - waste_percentage)
                         - total_marketing_spend * waste_percentage) * (1 - tax_rate))
                     / (revenue - cogs - non_marketing_opex
                         - total_marketing_spend * (1 - waste_percentage))))"
  by (simp add: calculate_effective_tax_rate_def py_div_def Let_def)

theorem effective_tax_rate_degenerate_witness:
  "(50 - 40 - 20 - 30 * (1 - 1 / 2) \<le> (0 :: real)
    \<and> calculate_effective_tax_rate 50 40 20 30 (1 / 2) (1 / 4) = Inr 0)
   \<and> ((0 :: real) < 100 - 40 - 20 - 30 * (1 - 1 / 2)
    \<and> calculate_effective_tax_rate 100 40 20 30 (1 / 2) (1 / 4) = Inr (7 / 10))"
  using effective_tax_rate_degenerate [of 50 40 20 30 "1 / 2" "1 / 4"]
    effective_tax_rate_degenerate [of 100 40 20 30 "1 / 2" "1 / 4"]
  by simp

text \<open>
  Claim C7, as stated, fails: without waste and with a waste-free operating income of
  \<open>50 - 40 - 20 - 30 = -40\<close> the function returns 0, not the nominal rate 1/4.
\<close>

theorem no_waste_nominal_rate_counterexample:
  "calculate_effective_tax_rate 50 40 20 30 0 (1 / 4) = Inr 0
   \<and> calculate_effective_tax_rate 50 40 20 30 0 (1 / 4) \<noteq> Inr (1 / 4)"
  by (simp add: calculate_effective_tax_rate_def)

text \<open>
  Claim C7, amended. Called with \<open>waste_percentage = 0\<close>, the function returns 0 when
  \<open>revenue - cogs - non_marketing_opex - total_marketing_spend\<close> is at most 0, and
  otherwise the value \<open>1 - (income * (1 - tax_rate)) / income\<close> of that income, the
  expression the code evaluates.
\<close>

theorem no_waste_nominal_rate:
  "calculate_effective_tax_rate revenue cogs non_marketing_opex total_marketing_spend 0 tax_rate
   = (let true_operating_income
            = revenue - cogs - non_marketing_opex - total_marketing_spend
      in if true_operating_income \<le> 0 then Inr 0
         else Inr (1 - (true_operating_income * (1 - tax_rate)) / true_operating_income))"
  by (simp add: calculate_effective_tax_rate_def py_div_def Let_def)

theorem no_waste_nominal_rate_witness:
  "calculate_effective_tax_rate 100 40 20 30 0 (1 / 4) = Inr (1 - (10 * (1 - 1 / 4)) / 10)
   \<and> calculate_effective_tax_rate 100 40 20 30 0 (1 / 4) = Inr (1 / 4)
   \<and> calculate_effective_tax_rate 50 40 20 30 0 (1 / 4) = Inr 0"
  using no_waste_nominal_rate [of 100 40 20 30 "1 / 4"]
    no_waste_nominal_rate [of 50 40 20 30 "1 / 4"]
  by simp

section \<open>Multi-year projection\<close>

text \<open>
  The loop over the years runs a list of years one after the other, and every trial
  of a simulation that returns is one run of \<open>run_trial\<close>.
\<close>

lemma year_loop_append:
  "year_loop normal cogs nmo tms t mg cg n be rp (xs @ ys) s
   = (case year_loop normal cogs nmo tms t mg cg n be rp xs s of
        Inl e \<Rightarrow> Inl e
      | Inr s' \<Rightarrow> year_loop normal cogs nmo tms t mg cg n be rp ys s')"
  by (induction xs arbitrary: s) (simp_all split: sum.splits)

lemma simulate_year_prior_roic:
  assumes "simulate_year normal cogs nmo tms t mg cg n be rp y s = Inr s'" and "y < n - 1"
  shows "prior_year_roic s'
         = (if 0 < last (yearly_capital s') then last (yearly_nopat s') / last (yearly_capital s')
            else 0)"
  using assms
  by (auto simp: simulate_year_def Let_def py_div_def py_pow_def split: if_splits sum.splits)

lemma year_loop_prior_roic:
  assumes "0 < y" and "y < n"
    and "year_loop normal cogs nmo tms t mg cg n be rp [0..y - 1] s = Inr s1"
  shows "prior_year_roic s1
         = (if 0 < last (yearly_capital s1) then last (yearly_nopat s1) / last (yearly_capital s1)
            else 0)"
proof -
  from assms(1) have "[0..y - 1] = [0..y - 1 - 1] @ [y - 1]"
    using upto_rec2 [of 0 "y - 1"] by simp
  with assms(3) obtain s' where
    "simulate_year normal cogs nmo tms t mg cg n be rp (y - 1) s' = Inr s1"
    by (auto simp: year_loop_append split: sum.splits)
  moreover from assms(2) have "y - 1 < n - 1" by simp
  ultimately show ?thesis by (rule simulate_year_prior_roic)
qed

lemma trial_loop_rows:
  "trial_loop normal revenue cogs nmo tms t ic mg cg n be rp m acc k = Inr (rows, k') \<Longrightarrow>
   \<exists>news. rows = acc @ news \<and> length news = m
     \<and> (\<forall>row \<in> set news. \<exists>k1 k2.
           run_trial normal revenue cogs nmo tms t ic mg cg n be rp k1 = Inr (row, k2))"
proof (induction m arbitrary: acc k)
  case 0
  then show ?case by simp
next
  case (Suc m)
  from Suc.prems obtain row k1 where
    t: "run_trial normal revenue cogs nmo tms t ic mg cg n be rp k = Inr (row, k1)"
    and r: "trial_loop normal revenue cogs nmo tms t ic mg cg n be rp m (acc @ [row]) k1
            = Inr (rows, k')"
    by (auto split: sum.splits prod.splits)
  from Suc.IH [OF r] obtain news where
    n: "rows = (acc @ [row]) @ news" "length news = m"
      "\<forall>row \<in> set news. \<exists>k1 k2.
         run_trial normal revenue cogs nmo tms t ic mg cg n be rp k1 = Inr (row, k2)"
    by blast
  from n t have "rows = acc @ (row # news) \<and> length (row # news) = Suc m
     \<and> (\<forall>row \<in> set (row # news). \<exists>k1 k2.
           run_trial normal revenue cogs nmo tms t ic mg cg n be rp k1 = Inr (row, k2))"
    by auto
  then show ?case by blast
qed

lemma scenario_loop_keeps:
  "scenario_loop normal revenue cogs nmo tms t ic mg cg n n_simulations be years rs
     scenarios k = Inr (scen, k') \<Longrightarrow>
   r \<notin> set rs \<Longrightarrow> scen r = scenarios r"
proof (induction rs arbitrary: scenarios k)
  case Nil
  then show ?case by simp
next
  case (Cons rp rs)
  from Cons.prems(1) obtain rows k1 where
    "scenario_loop normal revenue cogs nmo tms t ic mg cg n n_simulations be years rs
       (scenarios(rp \<mapsto> Some (years, np_mean_axis0 rows, np_std_axis0 rows))) k1
     = Inr (scen, k')"
    by (auto simp: Let_def split: sum.splits prod.splits)
  from Cons.IH [OF this] Cons.prems(2) show ?case by simp
qed

lemma scenario_loop_entries:
  "scenario_loop normal revenue cogs nmo tms t ic mg cg n n_simulations be years rs
     scenarios k = Inr (scen, k') \<Longrightarrow>
   r \<in> set rs \<Longrightarrow>
   \<exists>rows k1 k2.
     trial_loop normal revenue cogs nmo tms t ic mg cg n be r (nat n_simulations) [] k1
       = Inr (rows, k2)
     \<and> scen r = Some (Some (years, np_mean_axis0 rows, np_std_axis0 rows))"
proof (induction rs arbitrary: scenarios k)
  case Nil
  then show ?case by simp
next
  case (Cons rp rs)
  from Cons.prems(1) obtain rows k1 where
    t: "trial_loop normal revenue cogs nmo tms t ic mg cg n be rp (nat n_simulations) [] k
          = Inr (rows, k1)"
    and l: "scenario_loop normal revenue cogs nmo tms t ic mg cg n n_simulations be years rs
       (scenarios(rp \<mapsto> Some (years, np_mean_axis0 rows, np_std_axis0 rows))) k1
     = Inr (scen, k')"
    by (auto simp: Let_def split: sum.splits prod.splits)
  show ?case
  proof (cases "r \<in> set rs")
    case True
    from Cons.IH [OF l True] show ?thesis .
  next
    case False
    with Cons.prems(2) have "r = rp" by simp
    with scenario_loop_keeps [OF l False] t show ?thesis by auto
  qed
qed

lemma simulation_trials:
  assumes "simulate_multi_year_cumulative_roic normal k0 revenue cogs nmo tms t ic mg cg
             n_years n_simulations be removal_scenarios = Inr (scenarios, k')"
    and "r \<in> set removal_scenarios"
  shows "\<exists>rows. scenarios r
             = Some (Some ([1..n_years], np_mean_axis0 rows, np_std_axis0 rows))
           \<and> length rows = nat n_simulations
           \<and> (\<forall>row \<in> set rows. \<exists>k1 k2.
                 run_trial normal revenue cogs nmo tms t ic mg cg n_years be r k1
                   = Inr (row, k2))"
proof -
  from assms(1) have "scenario_loop normal revenue cogs nmo tms t ic mg cg n_years
      n_simulations be [1..n_years] removal_scenarios
      (map_of (map (\<lambda>removal. (removal, None)) removal_scenarios)) k0 = Inr (scenarios, k')"
    by (simp add: simulate_multi_year_cumulative_roic_def Let_def)
  from scenario_loop_entries [OF this assms(2)] obtain rows k1 k2 where
    t: "trial_loop normal revenue cogs nmo tms t ic mg cg n_years be r (nat n_simulations)
          [] k1 = Inr (rows, k2)"
    and e: "scenarios r = Some (Some ([1..n_years], np_mean_axis0 rows, np_std_axis0 rows))"
    by blast
  from trial_loop_rows [OF t] e show ?thesis by auto
qed

lemmas sim_defs = run_trial_def simulate_year_def marketing_spend_update_def
  roic_impact_def revenue_std_def py_div_def py_pow_def np_cumsum_def np_divide_def np_div_def
  Let_def upto.simps

lemmas agg_defs = simulate_multi_year_cumulative_roic_def np_mean_axis0_def np_std_axis0_def
  columns_def mean1_def std1_def

text \<open>
  Claim C3. A trial runs the years before \<open>y\<close>, then the body of year \<open>y\<close>, then the
  years after it. In a year \<open>y\<close> other than the first, the adjustment
  \<open>(prior_year_roic - 0.05) * 1.0\<close> is clipped to [-0.1, 0.2] and added to
  \<open>marketing_growth\<close>, and the spend after the year is the spend before it plus
  \<open>base_growth\<close> minus \<open>waste_in_growth * removal_pct\<close>: the removal acts on the growth
  increment only. \<open>prior_year_roic\<close> is the return of the year before. Every trial of a
  simulation that returns is such a run.
\<close>

theorem marketing_update_growth_only:
  assumes "0 < y" and "y < n_years"
  shows "(let s0 = \<lparr>current_revenue = revenue, current_marketing = total_marketing_spend,
                    current_capital = invested_capital, prior_year_roic = 0,
                    yearly_nopat = [], yearly_capital = [], draws = k\<rparr>
          in run_trial normal revenue cogs non_marketing_opex total_marketing_spend tax_rate
               invested_capital marketing_growth capital_growth n_years base_effectiveness
               removal_pct k
             = (case year_loop normal cogs non_marketing_opex total_marketing_spend tax_rate
                       marketing_growth capital_growth n_years base_effectiveness removal_pct
                       [0..y - 1] s0 of
                  Inl e \<Rightarrow> Inl e
                | Inr s1 \<Rightarrow>
                    (case simulate_year normal cogs non_marketing_opex total_marketing_spend
                            tax_rate marketing_growth capital_growth n_years
                            base_effectiveness removal_pct y s1 of
                       Inl e \<Rightarrow> Inl e
                     | Inr s2 \<Rightarrow>
                         (case year_loop normal cogs non_marketing_opex total_marketing_spend
                                 tax_rate marketing_growth capital_growth n_years
                                 base_effectiveness removal_pct [y + 1..n_years - 1] s2 of
                            Inl e \<Rightarrow> Inl e
                          | Inr s \<Rightarrow>
                              Inr (np_divide (np_cumsum (yearly_nopat s))
                                     (np_cumsum (yearly_capital s)), draws s))))
           \<and> (\<forall>s1 s2.
                 year_loop normal cogs non_marketing_opex total_marketing_spend tax_rate
                     marketing_growth capital_growth n_years base_effectiveness removal_pct
                     [0..y - 1] s0 = Inr s1
                 \<and> simulate_year normal cogs non_marketing_opex total_marketing_spend tax_rate
                     marketing_growth capital_growth n_years base_effectiveness removal_pct
                     y s1 = Inr s2
                 \<longrightarrow> (let roic_adjustment = (prior_year_roic s1 - 0.05) * 1.0;
                          clipped = max (- 0.1) (min 0.2 roic_adjustment);
                          adjusted_growth = marketing_growth + clipped;
                          base_growth = current_marketing s1 * adjusted_growth;
                          waste_in_growth = base_growth * (1 - base_effectiveness)
                      in - 0.1 \<le> clipped \<and> clipped \<le> 0.2
                         \<and> current_marketing s2
                             = current_marketing s1 + base_growth
                                 - waste_in_growth * removal_pct
                         \<and> prior_year_roic s1
                             = (if 0 < last (yearly_capital s1)
                                then last (yearly_nopat s1) / last (yearly_capital s1)
                                else 0))))
         \<and> (\<forall>scenarios k' r.
               simulate_multi_year_cumulative_roic normal k revenue cogs non_marketing_opex
                   total_marketing_spend tax_rate invested_capital marketing_growth
                   capital_growth n_years n_simulations base_effectiveness removal_scenarios
                 = Inr (scenarios, k')
               \<and> r \<in> set removal_scenarios
               \<longrightarrow> (\<exists>rows.
                      scenarios r
                        = Some (Some ([1..n_years], np_mean_axis0 rows, np_std_axis0 rows))
                      \<and> length rows = nat n_simulations
                      \<and> (\<forall>row \<in> set rows. \<exists>k1 k2.
                            run_trial normal revenue cogs non_marketing_opex
                              total_marketing_spend tax_rate invested_capital marketing_growth
                              capital_growth n_years base_effectiveness r k1
                            = Inr (row, k2))))"
proof -
  let ?s0 = "\<lparr>current_revenue = revenue, current_marketing = total_marketing_spend,
               current_capital = invested_capital, prior_year_roic = 0,
               yearly_nopat = [], yearly_capital = [], draws = k\<rparr>"
  let ?loop = "year_loop normal cogs non_marketing_opex total_marketing_spend tax_rate
                 marketing_growth capital_growth n_years base_effectiveness removal_pct"
  let ?year = "simulate_year normal cogs non_marketing_opex total_marketing_spend tax_rate
                 marketing_growth capital_growth n_years base_effectiveness removal_pct"
  from assms have split: "[0..n_years - 1] = [0..y - 1] @ y # [y + 1..n_years - 1]"
    by (intro upto_split3) simp_all
  have run: "run_trial normal revenue cogs non_marketing_opex total_marketing_spend tax_rate
               invested_capital marketing_growth capital_growth n_years base_effectiveness
               removal_pct k
             = (case ?loop [0..y - 1] ?s0 of
                  Inl e \<Rightarrow> Inl e
                | Inr s1 \<Rightarrow>
                    (case ?year y s1 of
                       Inl e \<Rightarrow> Inl e
                     | Inr s2 \<Rightarrow>
                         (case ?loop [y + 1..n_years - 1] s2 of
                            Inl e \<Rightarrow> Inl e
                          | Inr s \<Rightarrow>
                              Inr (np_divide (np_cumsum (yearly_nopat s))
                                     (np_cumsum (yearly_capital s)), draws s))))"
    unfolding run_trial_def Let_def split
    by (simp add: year_loop_append split: sum.splits)
  have upd: "- 0.1 \<le> max (- 0.1) (min 0.2 ((prior_year_roic s1 - 0.05) * 1.0 :: real))
      \<and> max (- 0.1) (min 0.2 ((prior_year_roic s1 - 0.05) * 1.0 :: real)) \<le> 0.2
      \<and> current_marketing s2
          = current_marketing s1
            + current_marketing s1
                * (marketing_growth + max (- 0.1) (min 0.2 ((prior_year_roic s1 - 0.05) * 1.0)))
            - current_marketing s1
                * (marketing_growth + max (- 0.1) (min 0.2 ((prior_year_roic s1 - 0.05) * 1.0)))
                * (1 - base_effectiveness) * removal_pct"
    if "?year y s1 = Inr s2" for s1 s2
  proof -
    from that have "current_marketing s2
        = marketing_spend_update marketing_growth base_effectiveness removal_pct y
            (current_marketing s1) (prior_year_roic s1)"
      by (auto simp: simulate_year_def Let_def split: sum.splits if_splits)
    with assms(1) show ?thesis
      by (auto simp: marketing_spend_update_def roic_impact_def Let_def max_def min_def)
  qed
  have prior: "prior_year_roic s1
        = (if 0 < last (yearly_capital s1)
           then last (yearly_nopat s1) / last (yearly_capital s1) else 0)"
    if "?loop [0..y - 1] ?s0 = Inr s1" for s1
    using assms that by (rule year_loop_prior_roic)
  have trials: "\<exists>rows.
          scenarios r = Some (Some ([1..n_years], np_mean_axis0 rows, np_std_axis0 rows))
          \<and> length rows = nat n_simulations
          \<and> (\<forall>row \<in> set rows. \<exists>k1 k2.
                run_trial normal revenue cogs non_marketing_opex total_marketing_spend
                  tax_rate invested_capital marketing_growth capital_growth n_years
                  base_effectiveness r k1 = Inr (row, k2))"
    if "simulate_multi_year_cumulative_roic normal k revenue cogs non_marketing_opex
          total_marketing_spend tax_rate invested_capital marketing_growth capital_growth
          n_years n_simulations base_effectiveness removal_scenarios = Inr (scenarios, k')"
      and "r \<in> set removal_scenarios" for scenarios k' r
    using that by (rule simulation_trials)
  have first: "run_trial normal revenue cogs non_marketing_opex total_marketing_spend tax_rate
               invested_capital marketing_growth capital_growth n_years base_effectiveness
               removal_pct k
             = (case ?loop [0..y - 1] ?s0 of
                  Inl e \<Rightarrow> Inl e
                | Inr s1 \<Rightarrow>
                    (case ?year y s1 of
                       Inl e \<Rightarrow> Inl e
                     | Inr s2 \<Rightarrow>
                         (case ?loop [y + 1..n_years - 1] s2 of
                            Inl e \<Rightarrow> Inl e
                          | Inr s \<Rightarrow>
                              Inr (np_divide (np_cumsum (yearly_nopat s))
                                     (np_cumsum (yearly_capital s)), draws s))))
           \<and> (\<forall>s1 s2. ?loop [0..y - 1] ?s0 = Inr s1 \<and> ?year y s1 = Inr s2
                 \<longrightarrow> - 0.1 \<le> max (- 0.1) (min 0.2 ((prior_year_roic s1 - 0.05) * 1.0 :: real))
      \<and> max (- 0.1) (min 0.2 ((prior_year_roic s1 - 0.05) * 1.0 :: real)) \<le> 0.2
      \<and> current_marketing s2
          = current_marketing s1
            + current_marketing s1
                * (marketing_growth + max (- 0.1) (min 0.2 ((prior_year_roic s1 - 0.05) * 1.0)))
            - current_marketing s1
                * (marketing_growth + max (- 0.1) (min 0.2 ((prior_year_roic s1 - 0.05) * 1.0)))
                * (1 - base_effectiveness) * removal_pct
      \<and> prior_year_roic s1
          = (if 0 < last (yearly_capital s1)
             then last (yearly_nopat s1) / last (yearly_capital s1) else 0))"
    using run upd prior by blast
  have last: "\<forall>scenarios k' r.
      simulate_multi_year_cumulative_roic normal k revenue cogs non_marketing_opex
          total_marketing_spend tax_rate invested_capital marketing_growth capital_growth
          n_years n_simulations base_effectiveness removal_scenarios = Inr (scenarios, k')
      \<and> r \<in> set removal_scenarios
      \<longrightarrow> (\<exists>rows.
          scenarios r = Some (Some ([1..n_years], np_mean_axis0 rows, np_std_axis0 rows))
          \<and> length rows = nat n_simulations
          \<and> (\<forall>row \<in> set rows. \<exists>k1 k2.
                run_trial normal revenue cogs non_marketing_opex total_marketing_spend
                  tax_rate invested_capital marketing_growth capital_growth n_years
                  base_effectiveness r k1 = Inr (row, k2)))"
    using trials by blast
  from first last show ?thesis
    unfolding Let_def by (rule conjI)
qed

theorem marketing_update_growth_only_witness:
  "(0 :: int) < 1 \<and> (1 :: int) < 2
   \<and> year_loop (\<lambda>i loc scale. loc) 40 20 30 (1 / 4) 0 (1 / 10) 2 (1 / 2) (1 / 2) [0..1 - 1]
         \<lparr>current_revenue = 100, current_marketing = 30, current_capital = 70,
          prior_year_roic = 0, yearly_nopat = [], yearly_capital = [], draws = 0\<rparr>
       = Inr \<lparr>current_revenue = 877 / 8, current_marketing = 45 / 2, current_capital = 77,
               prior_year_roic = 3 / 16, yearly_nopat = [105 / 8], yearly_capital = [70],
               draws = 1\<rparr>
   \<and> simulate_year (\<lambda>i loc scale. loc) 40 20 30 (1 / 4) 0 (1 / 10) 2 (1 / 2) (1 / 2) 1
         \<lparr>current_revenue = 877 / 8, current_marketing = 45 / 2, current_capital = 77,
          prior_year_roic = 3 / 16, yearly_nopat = [105 / 8], yearly_capital = [70],
          draws = 1\<rparr>
       = Inr \<lparr>current_revenue = 877 / 8, current_marketing = 3177 / 128, current_capital = 77,
               prior_year_roic = 3 / 16, yearly_nopat = [105 / 8, 9525 / 512],
               yearly_capital = [70, 77], draws = 1\<rparr>
   \<and> (3177 / 128 :: real) = 45 / 2 + 45 / 2 * (0 + 11 / 80)
         - 45 / 2 * (0 + 11 / 80) * (1 - 1 / 2) * (1 / 2)
   \<and> run_trial (\<lambda>i loc scale. loc) 100 40 20 30 (1 / 4) 70 0 (1 / 10) 2 (1 / 2) (1 / 2) 0
       = Inr ([Some (3 / 16), Some (5415 / 25088)], 1)
   \<and> (\<exists>scenarios.
         simulate_multi_year_cumulative_roic (\<lambda>i loc scale. loc) 0 100 40 20 30 (1 / 4) 70 0
           (1 / 10) 2 1 (1 / 2) [1 / 2] = Inr (scenarios, 1)
         \<and> scenarios (1 / 2)
             = Some (Some ([1, 2], NdVector [Some (3 / 16), Some (5415 / 25088)],
                           NdVector [Some 0, Some 0])))"
proof -
  have t: "run_trial (\<lambda>i loc scale. loc) 100 40 20 30 (1 / 4) 70 0 (1 / 10) 2 (1 / 2) (1 / 2) 0
       = Inr ([Some (3 / 16), Some (5415 / 25088)], 1)"
    by (simp add: sim_defs)
  have s: "\<exists>scenarios.
         simulate_multi_year_cumulative_roic (\<lambda>i loc scale. loc) 0 100 40 20 30 (1 / 4) 70 0
           (1 / 10) 2 1 (1 / 2) [1 / 2] = Inr (scenarios, 1)
         \<and> scenarios (1 / 2)
             = Some (Some ([1, 2], NdVector [Some (3 / 16), Some (5415 / 25088)],
                           NdVector [Some 0, Some 0]))"
    by (simp add: agg_defs t upto.simps)
  have l: "year_loop (\<lambda>i loc scale. loc) 40 20 30 (1 / 4) 0 (1 / 10) 2 (1 / 2) (1 / 2) [0..1 - 1]
         \<lparr>current_revenue = 100, current_marketing = 30, current_capital = 70,
          prior_year_roic = 0, yearly_nopat = [], yearly_capital = [], draws = 0\<rparr>
       = Inr \<lparr>current_revenue = 877 / 8, current_marketing = 45 / 2, current_capital = 77,
               prior_year_roic = 3 / 16, yearly_nopat = [105 / 8], yearly_capital = [70],
               draws = 1\<rparr>"
    by (simp add: sim_defs)
  have y: "simulate_year (\<lambda>i loc scale. loc) 40 20 30 (1 / 4) 0 (1 / 10) 2 (1 / 2) (1 / 2) 1
         \<lparr>current_revenue = 877 / 8, current_marketing = 45 / 2, current_capital = 77,
          prior_year_roic = 3 / 16, yearly_nopat = [105 / 8], yearly_capital = [70],
          draws = 1\<rparr>
       = Inr \<lparr>current_revenue = 877 / 8, current_marketing = 3177 / 128, current_capital = 77,
               prior_year_roic = 3 / 16, yearly_nopat = [105 / 8, 9525 / 512],
               yearly_capital = [70, 77], draws = 1\<rparr>"
    by (simp add: sim_defs)
  show ?thesis
    using t s l y
      marketing_update_growth_only [where y = 1 and n_years = 2
        and normal = "\<lambda>i loc scale. loc" and revenue = 100 and cogs = 40
        and non_marketing_opex = 20 and total_marketing_spend = 30 and tax_rate = "1 / 4"
        and invested_capital = 70 and marketing_growth = 0 and capital_growth = "1 / 10"
        and base_effectiveness = "1 / 2" and removal_pct = "1 / 2" and k = 0
        and n_simulations = 1 and removal_scenarios = "[1 / 2]"]
    by simp
qed



subsection \<open>Invariants of a trial\<close>

lemma simulate_year_capital_ok:
  assumes "0 \<le> capital_growth" and "capital_ok s"
    and "simulate_year normal cogs nmo tms t mg capital_growth n be rp year s = Inr s'"
  shows "capital_ok s'
         \<and> length (yearly_nopat s') = Suc (length (yearly_nopat s))
         \<and> length (yearly_capital s') = Suc (length (yearly_capital s))"
proof -
  have g: "0 < 1 + capital_growth" using assms(1) by simp
  have c: "0 < current_capital s" using assms(2) by (simp add: capital_ok_def)
  show ?thesis
    using assms(2,3) mult_pos_pos [OF c g]
    by (auto simp: simulate_year_def capital_ok_def Let_def py_div_def py_pow_def
          split: if_splits sum.splits)
qed

lemma year_loop_capital_ok:
  assumes "0 \<le> capital_growth"
  shows "capital_ok s \<Longrightarrow>
    year_loop normal cogs nmo tms t mg capital_growth n be rp ys s = Inr s' \<Longrightarrow>
    capital_ok s'
    \<and> length (yearly_nopat s') = length (yearly_nopat s) + length ys
    \<and> length (yearly_capital s') = length (yearly_capital s) + length ys"
proof (induction ys arbitrary: s)
  case Nil
  then show ?case by simp
next
  case (Cons y ys)
  from Cons.prems(2) obtain s1 where
    s1: "simulate_year normal cogs nmo tms t mg capital_growth n be rp y s = Inr s1"
    and r: "year_loop normal cogs nmo tms t mg capital_growth n be rp ys s1 = Inr s'"
    by (auto split: sum.splits)
  from simulate_year_capital_ok [OF assms Cons.prems(1) s1] Cons.IH [OF _ r]
  show ?case by simp
qed

lemma cumsum_from_length: "length (cumsum_from acc xs) = length xs"
  by (induction xs arbitrary: acc) simp_all

lemma cumsum_from_nonneg:
  "0 \<le> acc \<Longrightarrow> \<forall>x \<in> set xs. 0 \<le> x \<Longrightarrow> \<forall>y \<in> set (cumsum_from acc xs). 0 \<le> y"
proof (induction xs arbitrary: acc)
  case Nil
  then show ?case by simp
next
  case (Cons x xs)
  then have a: "0 \<le> acc + x" and r: "\<forall>x \<in> set xs. 0 \<le> x" by simp_all
  from Cons.IH [OF a r] a show ?case by simp
qed

lemma cumsum_from_pos:
  "0 \<le> acc \<Longrightarrow> \<forall>x \<in> set xs. 0 < x \<Longrightarrow> \<forall>y \<in> set (cumsum_from acc xs). 0 < y"
proof (induction xs arbitrary: acc)
  case Nil
  then show ?case by simp
next
  case (Cons x xs)
  then have a: "0 < acc + x" and r: "\<forall>x \<in> set xs. 0 < x" by simp_all
  from a have "0 \<le> acc + x" by simp
  from Cons.IH [OF this r] a show ?case by simp
qed

lemma np_divide_ok:
  assumes "\<forall>a \<in> set xs. 0 \<le> a" and "\<forall>b \<in> set ys. 0 < b"
  shows "\<forall>x \<in> set (np_divide xs ys). roic_ok x"
proof
  fix x assume "x \<in> set (np_divide xs ys)"
  then obtain a b where ab: "(a, b) \<in> set (zip xs ys)" and x: "x = np_div a b"
    by (auto simp: np_divide_def)
  from ab have "a \<in> set xs" "b \<in> set ys" by (auto dest: set_zip_leftD set_zip_rightD)
  with assms have "0 \<le> a" "0 < b" by auto
  then show "roic_ok x" by (simp add: x np_div_def roic_ok_def)
qed

lemma np_divide_length: "length (np_divide xs ys) = min (length xs) (length ys)"
  by (simp add: np_divide_def)

lemma run_trial_ok:
  assumes "0 < invested_capital" and "0 \<le> capital_growth"
    and "run_trial normal revenue cogs nmo tms t invested_capital mg capital_growth n be rp k
         = Inr (roics, k')"
  shows "(\<forall>x \<in> set roics. roic_ok x) \<and> length roics = nat n"
proof -
  let ?s0 = "\<lparr>current_revenue = revenue, current_marketing = tms,
               current_capital = invested_capital, prior_year_roic = 0,
               yearly_nopat = [], yearly_capital = [], draws = k\<rparr>"
  from assms(3) obtain s where
    l: "year_loop normal cogs nmo tms t mg capital_growth n be rp [0..n - 1] ?s0 = Inr s"
    and r: "roics = np_divide (np_cumsum (yearly_nopat s)) (np_cumsum (yearly_capital s))"
    by (auto simp: run_trial_def Let_def split: sum.splits)
  have "capital_ok ?s0" using assms(1) by (simp add: capital_ok_def)
  from year_loop_capital_ok [OF assms(2) this l]
  have ok: "capital_ok s" and ln: "length (yearly_nopat s) = nat n"
    and lc: "length (yearly_capital s) = nat n"
    by simp_all
  have "\<forall>a \<in> set (np_cumsum (yearly_nopat s)). 0 \<le> a"
    unfolding np_cumsum_def using ok by (intro cumsum_from_nonneg) (simp_all add: capital_ok_def)
  moreover have "\<forall>b \<in> set (np_cumsum (yearly_capital s)). 0 < b"
    unfolding np_cumsum_def using ok by (intro cumsum_from_pos) (simp_all add: capital_ok_def)
  ultimately have "\<forall>x \<in> set roics. roic_ok x"
    unfolding r by (rule np_divide_ok)
  moreover have "length roics = nat n"
    by (simp add: r np_divide_length np_cumsum_def cumsum_from_length ln lc)
  ultimately show ?thesis by simp
qed

lemma roic_ok_iff: "roic_ok x \<longleftrightarrow> (\<exists>v. x = Some v \<and> 0 \<le> v)"
  by (cases x) (simp_all add: roic_ok_def)

lemma trial_loop_ok:
  assumes "0 < invested_capital" and "0 \<le> capital_growth"
  shows "\<forall>row \<in> set acc. (\<forall>x \<in> set row. roic_ok x) \<and> length row = nat n \<Longrightarrow>
    trial_loop normal revenue cogs nmo tms t invested_capital mg capital_growth n be rp
      m acc k = Inr (rows, k') \<Longrightarrow>
    (\<forall>row \<in> set rows. (\<forall>x \<in> set row. roic_ok x) \<and> length row = nat n)
    \<and> length rows = length acc + m"
proof (induction m arbitrary: acc k)
  case 0
  then show ?case by simp
next
  case (Suc m)
  from Suc.prems(2) obtain roics k1 where
    t: "run_trial normal revenue cogs nmo tms t invested_capital mg capital_growth n be rp k
        = Inr (roics, k1)"
    and r: "trial_loop normal revenue cogs nmo tms t invested_capital mg capital_growth n be
              rp m (acc @ [roics]) k1 = Inr (rows, k')"
    by (auto split: sum.splits prod.splits)
  from run_trial_ok [OF assms t] Suc.prems(1)
  have "\<forall>row \<in> set (acc @ [roics]). (\<forall>x \<in> set row. roic_ok x) \<and> length row = nat n"
    by auto
  from Suc.IH [OF this r] show ?case by simp
qed

lemma columns_ok:
  assumes "rows \<noteq> []" and "\<forall>row \<in> set rows. (\<forall>x \<in> set row. P x) \<and> length row = L"
  shows "length (columns rows) = L
         \<and> (\<forall>col \<in> set (columns rows). col \<noteq> [] \<and> (\<forall>x \<in> set col. P x))"
proof -
  from assms(1) have "hd rows \<in> set rows" by simp
  with assms(2) have h: "length (hd rows) = L" by blast
  have "col \<noteq> [] \<and> (\<forall>x \<in> set col. P x)" if "col \<in> set (columns rows)" for col
  proof -
    from that h obtain j where j: "j < L" and c: "col = map (\<lambda>row. row ! j) rows"
      by (auto simp: columns_def)
    have "P (row ! j)" if "row \<in> set rows" for row
      using assms(2) that j by (metis nth_mem)
    with assms(1) show ?thesis by (auto simp: c)
  qed
  then show ?thesis by (simp add: columns_def h)
qed

lemma mean1_ok:
  assumes "col \<noteq> []" and "\<forall>x \<in> set col. roic_ok x"
  shows "roic_ok (mean1 col)"
proof -
  from assms(2) have n: "None \<notin> set col" by (auto simp: roic_ok_def)
  have "0 \<le> sum_list (map the col)"
  proof (rule sum_list_nonneg)
    fix y assume "y \<in> set (map the col)"
    then obtain x where "x \<in> set col" "y = the x" by auto
    with assms(2) show "0 \<le> y" by (auto simp: roic_ok_iff)
  qed
  then show ?thesis using n by (simp add: mean1_def roic_ok_def)
qed

lemma scenario_loop_ok:
  assumes "0 < invested_capital" and "0 \<le> capital_growth" and "1 \<le> n_simulations"
  shows "\<forall>r v. scenarios r = Some v \<longrightarrow> scenario_ok n v \<Longrightarrow>
    scenario_loop normal revenue cogs nmo tms t invested_capital mg capital_growth n
      n_simulations be years rs scenarios k = Inr (scen, k') \<Longrightarrow>
    \<forall>r v. scen r = Some v \<longrightarrow> scenario_ok n v"
proof (induction rs arbitrary: scenarios k)
  case Nil
  then show ?case by simp
next
  case (Cons rp rs)
  from Cons.prems(2) obtain rows k1 where
    t: "trial_loop normal revenue cogs nmo tms t invested_capital mg capital_growth n be rp
          (nat n_simulations) [] k = Inr (rows, k1)"
    and r: "scenario_loop normal revenue cogs nmo tms t invested_capital mg capital_growth n
              n_simulations be years rs
              (scenarios(rp \<mapsto> Some (years, np_mean_axis0 rows, np_std_axis0 rows))) k1
            = Inr (scen, k')"
    by (auto simp: Let_def split: sum.splits prod.splits)
  from trial_loop_ok [OF assms(1,2) _ t]
  have rows: "\<forall>row \<in> set rows. (\<forall>x \<in> set row. roic_ok x) \<and> length row = nat n"
    and len: "length rows = nat n_simulations"
    by simp_all
  from len assms(3) have ne: "rows \<noteq> []" by auto
  from columns_ok [OF ne rows]
  have "length (map mean1 (columns rows)) = nat n"
    and "list_all roic_ok (map mean1 (columns rows))"
    by (simp_all add: list_all_iff mean1_ok)
  then have "scenario_ok n (Some (years, np_mean_axis0 rows, np_std_axis0 rows))"
    using ne by (simp add: scenario_ok_def np_mean_axis0_def)
  with Cons.prems(1)
  have "\<forall>r v. (scenarios(rp \<mapsto> Some (years, np_mean_axis0 rows, np_std_axis0 rows))) r = Some v
          \<longrightarrow> scenario_ok n v"
    by auto
  from Cons.IH [OF this r] show ?case .
qed

text \<open>
  Claim C10. With a positive invested capital and a non-negative capital growth, every
  element of the cumulative sequence a trial returns is a finite, non-negative number,
  and so is every element of every mean sequence the simulation returns (for at
  least one trial per scenario): each recorded profit is floored at 0 and each
  recorded capital is positive.
\<close>

theorem cumulative_roic_nonneg:
  assumes "0 < invested_capital" and "0 \<le> capital_growth"
  shows "(\<forall>roics k'.
            run_trial normal revenue cogs non_marketing_opex total_marketing_spend tax_rate
              invested_capital marketing_growth capital_growth n_years base_effectiveness
              removal_pct k = Inr (roics, k')
            \<longrightarrow> length roics = nat n_years
                \<and> (\<forall>x \<in> set roics. \<exists>v. x = Some v \<and> 0 \<le> v))
       \<and> (\<forall>scenarios k' r years mean_roics std_roics.
            1 \<le> n_simulations
            \<and> simulate_multi_year_cumulative_roic normal k revenue cogs non_marketing_opex
                total_marketing_spend tax_rate invested_capital marketing_growth
                capital_growth n_years n_simulations base_effectiveness removal_scenarios
              = Inr (scenarios, k')
            \<and> scenarios r = Some (Some (years, mean_roics, std_roics))
            \<longrightarrow> (\<exists>means. mean_roics = NdVector means \<and> length means = nat n_years
                   \<and> (\<forall>x \<in> set means. \<exists>v. x = Some v \<and> 0 \<le> v)))"
proof (intro conjI allI impI)
  fix roics k'
  assume "run_trial normal revenue cogs non_marketing_opex total_marketing_spend tax_rate
              invested_capital marketing_growth capital_growth n_years base_effectiveness
              removal_pct k = Inr (roics, k')"
  from run_trial_ok [OF assms this]
  show "length roics = nat n_years" and "\<forall>x \<in> set roics. \<exists>v. x = Some v \<and> 0 \<le> v"
    by (simp_all add: roic_ok_iff)
next
  fix scenarios k' r years mean_roics std_roics
  assume a: "1 \<le> n_simulations
            \<and> simulate_multi_year_cumulative_roic normal k revenue cogs non_marketing_opex
                total_marketing_spend tax_rate invested_capital marketing_growth
                capital_growth n_years n_simulations base_effectiveness removal_scenarios
              = Inr (scenarios, k')
            \<and> scenarios r = Some (Some (years, mean_roics, std_roics))"
  let ?init = "map_of (map (\<lambda>removal. (removal, None)) removal_scenarios)
                 :: real \<rightharpoonup> scenario_result option"
  have i: "\<forall>r v. ?init r = Some v \<longrightarrow> scenario_ok n_years v"
    by (auto simp: scenario_ok_def dest!: map_of_SomeD)
  from a have n: "1 \<le> n_simulations" by simp
  from a have l: "scenario_loop normal revenue cogs non_marketing_opex
      total_marketing_spend tax_rate invested_capital marketing_growth capital_growth n_years
      n_simulations base_effectiveness [1..n_years] removal_scenarios ?init k
      = Inr (scenarios, k')"
    by (simp add: simulate_multi_year_cumulative_roic_def Let_def)
  have "\<forall>r v. scenarios r = Some v \<longrightarrow> scenario_ok n_years v"
    by (rule scenario_loop_ok [OF assms n i l])
  with a have "scenario_ok n_years (Some (years, mean_roics, std_roics))" by blast
  then show "\<exists>means. mean_roics = NdVector means \<and> length means = nat n_years
                   \<and> (\<forall>x \<in> set means. \<exists>v. x = Some v \<and> 0 \<le> v)"
    by (cases mean_roics) (simp_all add: scenario_ok_def list_all_iff roic_ok_iff)
qed

theorem cumulative_roic_nonneg_witness:
  "(0 :: real) < 70 \<and> (0 :: real) \<le> 1 / 10 \<and> (1 :: int) \<le> 1
   \<and> run_trial (\<lambda>i loc scale. loc) 100 40 20 30 (1 / 4) 70 (1 / 10) (1 / 10) 2 (1 / 2) 0 0
       = Inr ([Some (3 / 28), Some (205 / 1372)], 1)
   \<and> (\<exists>scenarios.
         simulate_multi_year_cumulative_roic (\<lambda>i loc scale. loc) 0 100 40 20 30 (1 / 4) 70
           (1 / 10) (1 / 10) 2 1 (1 / 2) [0] = Inr (scenarios, 1)
         \<and> scenarios 0 = Some (Some ([1, 2], NdVector [Some (3 / 28), Some (205 / 1372)],
                                  NdVector [Some 0, Some 0])))"
proof -
  have t: "run_trial (\<lambda>i loc scale. loc) 100 40 20 30 (1 / 4) 70 (1 / 10) (1 / 10) 2 (1 / 2) 0 0
      = Inr ([Some (3 / 28), Some (205 / 1372)], 1)"
    by (simp add: sim_defs)
  have s: "\<exists>scenarios.
         simulate_multi_year_cumulative_roic (\<lambda>i loc scale. loc) 0 100 40 20 30 (1 / 4) 70
           (1 / 10) (1 / 10) 2 1 (1 / 2) [0] = Inr (scenarios, 1)
         \<and> scenarios 0 = Some (Some ([1, 2], NdVector [Some (3 / 28), Some (205 / 1372)],
                                  NdVector [Some 0, Some 0]))"
    by (simp add: agg_defs t upto.simps)
  show ?thesis
    using t s
      cumulative_roic_nonneg [where invested_capital = 70 and capital_growth = "1 / 10"
        and normal = "\<lambda>i loc scale. loc" and revenue = 100 and cogs = 40
        and non_marketing_opex = 20 and total_marketing_spend = 30 and tax_rate = "1 / 4"
        and marketing_growth = "1 / 10" and n_years = 2 and base_effectiveness = "1 / 2"
        and removal_pct = 0 and k = 0 and n_simulations = 1 and removal_scenarios = "[0]"]
    by simp
qed

text \<open>
  Claim C1 fails on the code. With \<open>invested_capital = 0\<close> and one year, the recorded
  capital is \<open>[0]\<close>, so the division \<open>cumsum(nopat) / cumsum(capital)\<close> is executed with
  the divisor 0 and the element is not a finite number; the sibling division of line
  201 is guarded by \<open>current_capital > 0\<close>. With \<open>total_marketing_spend = 0\<close> and two
  years, \<open>current_marketing / total_marketing_spend\<close> raises \<open>ZeroDivisionError\<close>.
\<close>

theorem unguarded_divisions:
  "year_loop (\<lambda>i loc scale. loc) 40 20 30 (1 / 4) (1 / 10) (1 / 10) 1 (1 / 2) 0 [0..1 - 1]
      \<lparr>current_revenue = 100, current_marketing = 30, current_capital = 0,
       prior_year_roic = 0, yearly_nopat = [], yearly_capital = [], draws = 0\<rparr>
    = Inr \<lparr>current_revenue = 100, current_marketing = 30, current_capital = 0,
           prior_year_roic = 0, yearly_nopat = [15 / 2], yearly_capital = [0], draws = 0\<rparr>
   \<and> np_cumsum [0] = [0]
   \<and> np_divide (np_cumsum [15 / 2]) (np_cumsum [0]) = [None]
   \<and> run_trial (\<lambda>i loc scale. loc) 100 40 20 30 (1 / 4) 0 (1 / 10) (1 / 10) 1 (1 / 2) 0 0
       = Inr ([None], 0)
   \<and> run_trial (\<lambda>i loc scale. loc) 100 40 20 0 (1 / 4) 70 (1 / 10) (1 / 10) 2 (1 / 2) 0 0
       = Inl ZeroDivisionError"
  by (simp add: sim_defs)

text \<open>
  With a single trial, the deviation of a column is 0 where the trial's element is a
  finite number, and not a number where it is not. So with a positive invested capital
  and a non-negative capital growth every element of every \<open>std_roic\<close> is 0.
\<close>

lemma single_trial_std:
  "np_std_axis0 [row] = NdVector (map (map_option (\<lambda>v. 0)) row)"
proof -
  have e: "std1 [x] = map_option (\<lambda>v. 0) x" for x
    by (cases x) (simp_all add: std1_def)
  have "map std1 (columns [row]) = map (map_option (\<lambda>v. 0)) row"
    by (rule nth_equalityI) (simp_all add: columns_def e)
  then show ?thesis by (simp add: np_std_axis0_def)
qed

lemma scenario_loop_invariant:
  assumes step: "\<And>rp k rows k'.
      trial_loop normal revenue cogs nmo tms t ic mg cg n be rp (nat n_simulations) [] k
        = Inr (rows, k')
      \<Longrightarrow> Q (Some (years, np_mean_axis0 rows, np_std_axis0 rows))"
  shows "\<forall>r v. scenarios r = Some v \<longrightarrow> Q v \<Longrightarrow>
    scenario_loop normal revenue cogs nmo tms t ic mg cg n n_simulations be years rs
      scenarios k = Inr (scen, k') \<Longrightarrow>
    \<forall>r v. scen r = Some v \<longrightarrow> Q v"
proof (induction rs arbitrary: scenarios k)
  case Nil
  then show ?case by simp
next
  case (Cons rp rs)
  from Cons.prems(2) obtain rows k1 where
    t: "trial_loop normal revenue cogs nmo tms t ic mg cg n be rp (nat n_simulations) [] k
          = Inr (rows, k1)"
    and r: "scenario_loop normal revenue cogs nmo tms t ic mg cg n n_simulations be years rs
              (scenarios(rp \<mapsto> Some (years, np_mean_axis0 rows, np_std_axis0 rows))) k1
            = Inr (scen, k')"
    by (auto simp: Let_def split: sum.splits prod.splits)
  from step [OF t] Cons.prems(1)
  have "\<forall>r v. (scenarios(rp \<mapsto> Some (years, np_mean_axis0 rows, np_std_axis0 rows))) r = Some v
          \<longrightarrow> Q v"
    by auto
  from Cons.IH [OF this r] show ?case .
qed

lemma stubbed_std_zero:
  assumes "0 < invested_capital" and "0 \<le> capital_growth"
    and "simulate_multi_year_cumulative_roic normal k revenue cogs nmo tms t invested_capital
           mg capital_growth n_years 1 be removal_scenarios = Inr (scenarios, k')"
    and "scenarios r = Some (Some (years, mean_roics, std_roics))"
  shows "std_roics = NdVector (replicate (nat n_years) (Some 0))"
proof -
  let ?Q = "\<lambda>v :: scenario_result option.
      case v of None \<Rightarrow> True
      | Some (y, m, sd) \<Rightarrow> sd = NdVector (replicate (nat n_years) (Some 0))"
  let ?init = "map_of (map (\<lambda>removal. (removal, None)) removal_scenarios)
                 :: real \<rightharpoonup> scenario_result option"
  have i: "\<forall>r v. ?init r = Some v \<longrightarrow> ?Q v"
    by (auto dest!: map_of_SomeD)
  have l: "scenario_loop normal revenue cogs nmo tms t invested_capital mg capital_growth
      n_years 1 be [1..n_years] removal_scenarios ?init k = Inr (scenarios, k')"
    using assms(3) by (simp add: simulate_multi_year_cumulative_roic_def Let_def)
  have step: "?Q (Some ([1..n_years], np_mean_axis0 rows, np_std_axis0 rows))"
    if "trial_loop normal revenue cogs nmo tms t invested_capital mg capital_growth n_years
          be rp (nat 1) [] k0 = Inr (rows, k1)" for rp k0 rows k1
  proof -
    from that obtain row where
      t: "run_trial normal revenue cogs nmo tms t invested_capital mg capital_growth n_years
            be rp k0 = Inr (row, k1)"
      and rows: "rows = [row]"
      by (auto split: sum.splits prod.splits)
    from run_trial_ok [OF assms(1,2) t]
    have ok: "\<forall>x \<in> set row. roic_ok x" and len: "length row = nat n_years" by simp_all
    have "map_option (\<lambda>v. 0 :: real) (row ! j) = Some 0" if "j < length row" for j
      using ok nth_mem [OF that] by (auto simp: roic_ok_iff)
    then have "map (map_option (\<lambda>v. 0 :: real)) row = replicate (nat n_years) (Some 0)"
      using len by (intro nth_equalityI) simp_all
    then show ?thesis by (simp add: rows single_trial_std)
  qed
  have "\<forall>r v. scenarios r = Some v \<longrightarrow> ?Q v"
    by (rule scenario_loop_invariant [where Q = ?Q, OF step i l])
  with assms(4) show ?thesis by fastforce
qed

text \<open>
  With the generator replaced by its mean, a run does not depend on the state of the
  generator: two states that differ in the draw count only go through the same
  years, trials and scenarios, so that two runs return the same dictionary.
\<close>

lemma same_but_draws:
  assumes "s\<lparr>draws := 0\<rparr> = u\<lparr>draws := 0\<rparr>"
  shows "current_revenue s = current_revenue u"
    and "current_marketing s = current_marketing u"
    and "current_capital s = current_capital u"
    and "prior_year_roic s = prior_year_roic u"
    and "yearly_nopat s = yearly_nopat u"
    and "yearly_capital s = yearly_capital u"
  using assms by (cases s; cases u; simp)+

lemma simulate_year_stub_draws:
  assumes "s\<lparr>draws := 0\<rparr> = u\<lparr>draws := 0\<rparr>"
  shows "rel_sum (=) (\<lambda>s' u'. s'\<lparr>draws := 0\<rparr> = u'\<lparr>draws := 0\<rparr>)
           (simulate_year (\<lambda>i loc scale. loc) cogs nmo tms t mg cg n be rp y s)
           (simulate_year (\<lambda>i loc scale. loc) cogs nmo tms t mg cg n be rp y u)"
proof -
  note e = same_but_draws [OF assms]
  show ?thesis
    by (simp add: simulate_year_def Let_def e py_div_def py_pow_def)
qed

lemma year_loop_stub_draws:
  "s\<lparr>draws := 0\<rparr> = u\<lparr>draws := 0\<rparr> \<Longrightarrow>
   rel_sum (=) (\<lambda>s' u'. s'\<lparr>draws := 0\<rparr> = u'\<lparr>draws := 0\<rparr>)
     (year_loop (\<lambda>i loc scale. loc) cogs nmo tms t mg cg n be rp ys s)
     (year_loop (\<lambda>i loc scale. loc) cogs nmo tms t mg cg n be rp ys u)"
proof (induction ys arbitrary: s u)
  case Nil
  then show ?case by simp
next
  case (Cons y ys)
  from simulate_year_stub_draws [OF Cons.prems, of cogs nmo tms t mg cg n be rp y]
  show ?case
    by (cases "simulate_year (\<lambda>i loc scale. loc) cogs nmo tms t mg cg n be rp y s";
        cases "simulate_year (\<lambda>i loc scale. loc) cogs nmo tms t mg cg n be rp y u")
      (simp_all add: Cons.IH)
qed

lemma run_trial_stub_draws:
  "map_sum (\<lambda>e. e) fst
     (run_trial (\<lambda>i loc scale. loc) revenue cogs nmo tms t ic mg cg n be rp k)
   = map_sum (\<lambda>e. e) fst
     (run_trial (\<lambda>i loc scale. loc) revenue cogs nmo tms t ic mg cg n be rp k')"
proof -
  let ?s = "\<lambda>d. \<lparr>current_revenue = revenue, current_marketing = tms, current_capital = ic,
               prior_year_roic = 0, yearly_nopat = [], yearly_capital = [], draws = d\<rparr>"
  let ?run = "\<lambda>d. year_loop (\<lambda>i loc scale. loc) cogs nmo tms t mg cg n be rp [0..n - 1] (?s d)"
  have "(?s k)\<lparr>draws := 0\<rparr> = (?s k')\<lparr>draws := 0\<rparr>" by simp
  from year_loop_stub_draws [OF this, of cogs nmo tms t mg cg n be rp "[0..n - 1]"]
  have r: "rel_sum (=) (\<lambda>s' u'. s'\<lparr>draws := 0\<rparr> = u'\<lparr>draws := 0\<rparr>) (?run k) (?run k')" .
  show ?thesis
  proof (cases "?run k")
    case (Inl e)
    with r show ?thesis
      by (cases "?run k'") (simp_all add: run_trial_def)
  next
    case (Inr b)
    with r obtain ba where u: "?run k' = Inr ba" and e: "b\<lparr>draws := 0\<rparr> = ba\<lparr>draws := 0\<rparr>"
      by (cases "?run k'") simp_all
    from same_but_draws(5,6) [OF e] Inr u show ?thesis
      by (simp add: run_trial_def Let_def)
  qed
qed

lemma trial_loop_stub_draws:
  "map_sum (\<lambda>e. e) fst
     (trial_loop (\<lambda>i loc scale. loc) revenue cogs nmo tms t ic mg cg n be rp m acc k)
   = map_sum (\<lambda>e. e) fst
     (trial_loop (\<lambda>i loc scale. loc) revenue cogs nmo tms t ic mg cg n be rp m acc k')"
proof (induction m arbitrary: acc k k')
  case 0
  then show ?case by simp
next
  case (Suc m)
  from run_trial_stub_draws [of revenue cogs nmo tms t ic mg cg n be rp k k']
  show ?case
    by (cases "run_trial (\<lambda>i loc scale. loc) revenue cogs nmo tms t ic mg cg n be rp k";
        cases "run_trial (\<lambda>i loc scale. loc) revenue cogs nmo tms t ic mg cg n be rp k'")
      (auto intro: Suc.IH)
qed

lemma scenario_loop_stub_draws:
  "map_sum (\<lambda>e. e) fst
     (scenario_loop (\<lambda>i loc scale. loc) revenue cogs nmo tms t ic mg cg n n_simulations be
        years rs scenarios k)
   = map_sum (\<lambda>e. e) fst
     (scenario_loop (\<lambda>i loc scale. loc) revenue cogs nmo tms t ic mg cg n n_simulations be
        years rs scenarios k')"
proof (induction rs arbitrary: scenarios k k')
  case Nil
  then show ?case by simp
next
  case (Cons rp rs)
  from trial_loop_stub_draws [of revenue cogs nmo tms t ic mg cg n be rp "nat n_simulations"
      "[]" k k']
  show ?case
    by (cases "trial_loop (\<lambda>i loc scale. loc) revenue cogs nmo tms t ic mg cg n be rp
                 (nat n_simulations) [] k";
        cases "trial_loop (\<lambda>i loc scale. loc) revenue cogs nmo tms t ic mg cg n be rp
                 (nat n_simulations) [] k'")
      (auto simp: Let_def intro: Cons.IH)
qed

lemma stubbed_runs_agree:
  "map_sum (\<lambda>e. e) fst
     (simulate_multi_year_cumulative_roic (\<lambda>i loc scale. loc) k revenue cogs nmo tms t ic
        mg cg n_years n_simulations be removal_scenarios)
   = map_sum (\<lambda>e. e) fst
     (simulate_multi_year_cumulative_roic (\<lambda>i loc scale. loc) k' revenue cogs nmo tms t ic
        mg cg n_years n_simulations be removal_scenarios)"
  unfolding simulate_multi_year_cumulative_roic_def Let_def
  by (rule scenario_loop_stub_draws)

text \<open>
  Claim C9 fails on the code at the same input. With the generator replaced by its
  mean, one trial, one year and \<open>invested_capital = 0\<close>, the element of \<open>std_roic\<close> is
  not the number 0: the cumulative value is not finite, and neither is its deviation.
\<close>

theorem stubbed_std_not_zero:
  "\<exists>scenarios.
     simulate_multi_year_cumulative_roic (\<lambda>i loc scale. loc) 0 100 40 20 30 (1 / 4) 0
       (1 / 10) (1 / 10) 1 1 (1 / 2) [0] = Inr (scenarios, 0)
     \<and> scenarios 0 = Some (Some ([1], NdVector [None], NdVector [None]))"
proof -
  have t: "run_trial (\<lambda>i loc scale. loc) 100 40 20 30 (1 / 4) 0 (1 / 10) (1 / 10) 1 (1 / 2) 0 0
       = Inr ([None], 0)"
    by (simp add: sim_defs)
  show ?thesis
    by (simp add: agg_defs t upto.simps)
qed

end
